theory Spec2Isabelle
  imports Main "HOL-Library.Sublist"
begin

section \<open>Python strings\<close>

text \<open>
  A Python \<open>str\<close> is a sequence of Unicode code points. The messages of the program are
  Chinese, so a string is a list of code points (\<open>nat\<close>), not of bytes; \<open>ascii\<close> embeds
  an ASCII literal.
\<close>

type_synonym pystr = "nat list"

definition ascii :: "string \<Rightarrow> pystr" where
  "ascii s = map of_char s"

text \<open>The code points that \<open>str.strip()\<close> removes (those for which \<open>str.isspace\<close> holds).\<close>

definition isspace :: "nat \<Rightarrow> bool" where
  "isspace c = (c \<in> set [9, 10, 11, 12, 13, 28, 29, 30, 31, 32, 133, 160, 5760,
     8192, 8193, 8194, 8195, 8196, 8197, 8198, 8199, 8200, 8201, 8202,
     8232, 8233, 8239, 8287, 12288])"

definition lstrip :: "pystr \<Rightarrow> pystr" where
  "lstrip s = dropWhile isspace s"

definition rstrip :: "pystr \<Rightarrow> pystr" where
  "rstrip s = rev (dropWhile isspace (rev s))"

text \<open>\<open>s.strip()\<close>: leading and trailing whitespace removed.\<close>

definition strip :: "pystr \<Rightarrow> pystr" where
  "strip s = rstrip (lstrip s)"

text \<open>\<open>s.startswith(p)\<close> is \<open>prefix p s\<close>, \<open>s.endswith(p)\<close> is \<open>suffix p s\<close>, \<open>p in s\<close> is
  \<open>sublist p s\<close> and \<open>s[n:]\<close> is \<open>drop n s\<close>.\<close>

section \<open>Exceptions\<close>

text \<open>
  Every \<open>try\<close> of the program ends in \<open>except Exception\<close>, which catches the classes
  deriving from \<open>Exception\<close> and lets \<open>SystemExit\<close>, \<open>KeyboardInterrupt\<close> and
  \<open>GeneratorExit\<close> (deriving from \<open>BaseException\<close> only) pass; \<open>main\<close> has its own
  \<open>except KeyboardInterrupt\<close>. \<open>MarkupError\<close> is what the console library raises on
  ill-formed markup.
\<close>

datatype exc_class =
    NameError | SyntaxError | TypeError | ValueError | KeyError | IndexError
  | AttributeError | OSError | ZeroDivisionError | RequestException | JSONDecodeError
  | MarkupError | OtherException
  | SystemExit | KeyboardInterrupt | GeneratorExit

fun derives_Exception :: "exc_class \<Rightarrow> bool" where
  "derives_Exception SystemExit = False"
| "derives_Exception KeyboardInterrupt = False"
| "derives_Exception GeneratorExit = False"
| "derives_Exception _ = True"

text \<open>
  An exception as the handlers see it. \<open>Raised c m\<close> has class \<open>c\<close> and \<open>str(e) = m\<close>.
  \<open>Unprintable c e\<close> has class \<open>c\<close> and a \<open>__str__\<close> that raises \<open>e\<close>. \<open>Interp c\<close> is one the
  interpreter raises on an ill-typed access to the decoded JSON: its \<open>str\<close> returns, the
  wording depends on the interpreter version and is not modelled; it names types and keys
  and holds no square bracket.
\<close>

datatype pyexc = Raised exc_class pystr | Unprintable exc_class pyexc | Interp exc_class

fun class_of :: "pyexc \<Rightarrow> exc_class" where
  "class_of (Raised c m) = c"
| "class_of (Unprintable c e) = c"
| "class_of (Interp c) = c"

text \<open>
  What a collaborator (the HTTP library, the executed code, the console, the file system)
  raises: a class and the outcome of \<open>str(e)\<close>, a text or an exception.
\<close>

datatype thrown = Thrown exc_class "pyexc + pystr"

fun exc_of :: "thrown \<Rightarrow> pyexc" where
  "exc_of (Thrown c (Inr m)) = Raised c m"
| "exc_of (Thrown c (Inl e)) = Unprintable c e"

section \<open>Decoded JSON and the accesses \<open>call_deepseek\<close> makes to it\<close>

text \<open>
  The value of \<open>response.json()\<close>. An object is the decoded \<open>dict\<close>, as an association
  list read with \<open>map_of\<close>. Numbers are never inspected by the program.
\<close>

datatype json =
    JNull | JBool bool | JNum int | JStr pystr
  | JArr "json list" | JObj "(pystr \<times> json) list"

text \<open>\<open>key in j\<close> for a string \<open>key\<close>.\<close>

fun py_in :: "pystr \<Rightarrow> json \<Rightarrow> pyexc + bool" where
  "py_in key (JObj kvs) = Inr (key \<in> set (map fst kvs))"
| "py_in key (JArr xs) = Inr (JStr key \<in> set xs)"
| "py_in key (JStr s) = Inr (sublist key s)"
| "py_in key _ = Inl (Interp TypeError)"

text \<open>\<open>j[key]\<close> for a string \<open>key\<close>.\<close>

fun py_getitem :: "json \<Rightarrow> pystr \<Rightarrow> pyexc + json" where
  "py_getitem (JObj kvs) key =
     (case map_of kvs key of None \<Rightarrow> Inl (Interp KeyError) | Some v \<Rightarrow> Inr v)"
| "py_getitem _ key = Inl (Interp TypeError)"

text \<open>\<open>len(j)\<close>.\<close>

fun py_len :: "json \<Rightarrow> pyexc + nat" where
  "py_len (JObj kvs) = Inr (length (remdups (map fst kvs)))"
| "py_len (JArr xs) = Inr (length xs)"
| "py_len (JStr s) = Inr (length s)"
| "py_len _ = Inl (Interp TypeError)"

text \<open>\<open>j[0]\<close>. The keys of a decoded object are strings, so \<open>0\<close> is never one of them.\<close>

fun py_first :: "json \<Rightarrow> pyexc + json" where
  "py_first (JArr []) = Inl (Interp IndexError)"
| "py_first (JArr (x # xs)) = Inr x"
| "py_first (JStr []) = Inl (Interp IndexError)"
| "py_first (JStr (c # cs)) = Inr (JStr [c])"
| "py_first (JObj kvs) = Inl (Interp KeyError)"
| "py_first _ = Inl (Interp TypeError)"

text \<open>\<open>j.strip()\<close>: only a string has the method.\<close>

fun py_strip :: "json \<Rightarrow> pyexc + pystr" where
  "py_strip (JStr s) = Inr (strip s)"
| "py_strip _ = Inl (Interp AttributeError)"

definition bind_exc :: "pyexc + 'a \<Rightarrow> ('a \<Rightarrow> pyexc + 'b) \<Rightarrow> pyexc + 'b" where
  "bind_exc m f = (case m of Inl e \<Rightarrow> Inl e | Inr x \<Rightarrow> f x)"

section \<open>The remote endpoint\<close>

text \<open>
  \<open>requests.post(url, headers, json=data, timeout=30)\<close> either raises or returns a response;
  \<open>response.json()\<close> either raises or returns the decoded body. The request is fixed apart
  from the user's prompt, so the endpoint is a function of the prompt. The status code is a
  field of the response that the program never reads.
\<close>

record response =
  status_code :: nat
  json_body :: "thrown + json"

datatype post_outcome = PostRaises thrown | PostReturns response

type_synonym endpoint = "pystr \<Rightarrow> post_outcome"

section \<open>Console output and other effects\<close>

record dataframe =
  columns :: "pystr list"
  rows :: "pystr list list"

text \<open>
  A value bound by the executed code: \<open>None\<close>, a string, a DataFrame, a module, or any other
  object (identified by a label).
\<close>

datatype pyval = PyNone | PyStr pystr | PyDataFrame dataframe | PyModule pystr | PyObject pystr

text \<open>
  What the program does to the outside, in order. The panels carry the value shown, not its
  rendering.
\<close>

datatype event =
    ApiCallFailed pyexc
  | QueryFailedPanel
  | AnswerPanel pystr
  | DebugCode pystr
  | Exec pystr
  | ErrorPanel pystr
  | TablePanel dataframe nat
  | SaveHint
  | ResultPanel pyval
  | NoDataToSave
  | MakeDirs pystr
  | WriteCsv pystr pystr dataframe
  | WriteText pystr pystr pyval
  | SavedTo pystr pystr
  | SaveFailed pyexc

text \<open>
  The console library reads a printed string as markup and raises on a closing tag that
  closes nothing; the program interpolates texts into such strings unescaped (lines 124,
  230, 242, 256, 194, 199 and 201). The console is therefore a parameter: for the text
  printed, \<open>None\<close> when it is printed and \<open>Some\<close> what is raised otherwise.
  \<open>print_markup\<close> prints a string, \<open>print_table\<close> builds and prints the table of a DataFrame
  (\<open>format_dataframe\<close>, line 249), \<open>print_object\<close> prints \<open>str(v)\<close> of a value that is neither
  a string nor a DataFrame (line 256). The strings the program prints without
  interpolation are well-formed and always printed, and so is a Markdown answer (line 220).
\<close>

record console =
  print_markup :: "pystr \<Rightarrow> thrown option"
  print_table :: "dataframe \<Rightarrow> thrown option"
  print_object :: "pyval \<Rightarrow> thrown option"

text \<open>
  \<open>console.print(before + str(e) + after)\<close>: \<open>None\<close> when the line is printed, \<open>Some\<close> the
  exception that \<open>str(e)\<close> or the console raises otherwise.
\<close>

fun print_exc :: "console \<Rightarrow> pystr \<Rightarrow> pyexc \<Rightarrow> pystr \<Rightarrow> pyexc option" where
  "print_exc cons before (Raised c m) after =
     map_option exc_of (print_markup cons (before @ m @ after))"
| "print_exc cons before (Unprintable c e) after = Some e"
| "print_exc cons before (Interp c) after = None"

section \<open>\<open>NLDataQuery.call_deepseek\<close>\<close>

text \<open>Lines 113 to 119: the tag of the stripped content decides the kind.\<close>

definition parse_content :: "pystr \<Rightarrow> pystr option \<times> pystr option" where
  "parse_content content =
     (if prefix (ascii ''CODE|'') content then
        (Some (ascii ''code''), Some (strip (drop 5 content)))
      else if prefix (ascii ''EXPLAIN|'') content then
        (Some (ascii ''explain''), Some (strip (drop 8 content)))
      else (Some (ascii ''code''), Some content))"

text \<open>The body of the \<open>try\<close> (lines 100 to 121); any exception leaves it.\<close>

definition call_deepseek_body :: "endpoint \<Rightarrow> pystr \<Rightarrow> pyexc + (pystr option \<times> pystr option)" where
  "call_deepseek_body post prompt =
     (case post prompt of
        PostRaises t \<Rightarrow> Inl (exc_of t)
      | PostReturns r \<Rightarrow>
          bind_exc (case json_body r of Inl t \<Rightarrow> Inl (exc_of t) | Inr j \<Rightarrow> Inr j)
            (\<lambda>response_json.
          bind_exc (py_in (ascii ''choices'') response_json) (\<lambda>has_choices.
          if \<not> has_choices then Inr (None, None)
          else
            bind_exc (py_getitem response_json (ascii ''choices'')) (\<lambda>choices.
            bind_exc (py_len choices) (\<lambda>n.
            if n > 0 then
              bind_exc (py_getitem response_json (ascii ''choices'')) (\<lambda>choices.
              bind_exc (py_first choices) (\<lambda>choice.
              bind_exc (py_getitem choice (ascii ''message'')) (\<lambda>message.
              bind_exc (py_getitem message (ascii ''content'')) (\<lambda>c.
              bind_exc (py_strip c) (\<lambda>content.
              Inr (parse_content content))))))
            else Inr (None, None))))))"

text \<open>The fixed part of the line printed at line 124: a cross in red, then
  \<open>API\<close>, four Chinese characters, a colon and a space.\<close>

definition api_failed_line :: pystr where
  "api_failed_line = ascii ''[red]'' @ [10007] @ ascii ''[/red] API''
     @ [35843, 29992, 22833, 36133, 58, 32]"

text \<open>
  \<open>except Exception\<close> (lines 123 to 125) prints the failure and returns \<open>(None, None)\<close>;
  an exception of another class propagates (\<open>Inl\<close>), and so does what \<open>str(e)\<close> or the
  print in the handler raises.
\<close>

definition call_deepseek ::
  "console \<Rightarrow> endpoint \<Rightarrow> pystr
     \<Rightarrow> pyexc + (event list \<times> (pystr option \<times> pystr option))" where
  "call_deepseek cons post prompt =
     (case call_deepseek_body post prompt of
        Inr r \<Rightarrow> Inr ([], r)
      | Inl e \<Rightarrow>
          if derives_Exception (class_of e) then
            (case print_exc cons api_failed_line e [] of
               Some e' \<Rightarrow> Inl e'
             | None \<Rightarrow> Inr ([ApiCallFailed e], (None, None)))
          else Inl e)"

text \<open>
  The decoded body of a completion whose first choice carries \<open>text\<close>:
  \<open>{"choices": [{"message": {"content": text}}]}\<close>, and a response with that body.
\<close>

definition chat_completion :: "pystr \<Rightarrow> json" where
  "chat_completion text =
     JObj [(ascii ''choices'',
            JArr [JObj [(ascii ''message'', JObj [(ascii ''content'', JStr text)])]])]"

definition replies :: "nat \<Rightarrow> pystr \<Rightarrow> endpoint" where
  "replies status text =
     (\<lambda>prompt. PostReturns \<lparr>status_code = status, json_body = Inr (chat_completion text)\<rparr>)"

text \<open>A decoded body that has a non-empty \<open>choices\<close> list.\<close>

fun nonempty_choices :: "json \<Rightarrow> bool" where
  "nonempty_choices (JObj kvs) =
     (case map_of kvs (ascii ''choices'') of Some (JArr (x # xs)) \<Rightarrow> True | _ \<Rightarrow> False)"
| "nonempty_choices _ = False"

section \<open>\<open>NLDataQuery.execute_code\<close>\<close>

text \<open>
  A namespace is a \<open>dict\<close> from names to values. \<open>module_globals\<close> holds the names the
  module binds itself (its imports, \<open>console\<close>, the class and \<open>main\<close>): what \<open>globals()\<close>
  returns, to which the interpreter adds the module's dunder names and, behind them, the
  builtins. \<open>local_vars\<close> is the dictionary of line 130.
\<close>

type_synonym namespace = "(pystr \<times> pyval) list"

definition module_globals :: namespace where
  "module_globals =
     [(ascii ''os'', PyModule (ascii ''os'')),
      (ascii ''ak'', PyModule (ascii ''akshare'')),
      (ascii ''requests'', PyModule (ascii ''requests'')),
      (ascii ''datetime'', PyModule (ascii ''datetime'')),
      (ascii ''pd'', PyModule (ascii ''pandas'')),
      (ascii ''load_dotenv'', PyObject (ascii ''dotenv.load_dotenv'')),
      (ascii ''Dict'', PyObject (ascii ''typing.Dict'')),
      (ascii ''Any'', PyObject (ascii ''typing.Any'')),
      (ascii ''Optional'', PyObject (ascii ''typing.Optional'')),
      (ascii ''Tuple'', PyObject (ascii ''typing.Tuple'')),
      (ascii ''Console'', PyObject (ascii ''rich.console.Console'')),
      (ascii ''Panel'', PyObject (ascii ''rich.panel.Panel'')),
      (ascii ''Table'', PyObject (ascii ''rich.table.Table'')),
      (ascii ''Markdown'', PyObject (ascii ''rich.markdown.Markdown'')),
      (ascii ''box'', PyModule (ascii ''rich.box'')),
      (ascii ''console'', PyObject (ascii ''console'')),
      (ascii ''NLDataQuery'', PyObject (ascii ''NLDataQuery'')),
      (ascii ''main'', PyObject (ascii ''main''))]"

definition local_vars :: namespace where
  "local_vars =
     [(ascii ''ak'', PyModule (ascii ''akshare'')),
      (ascii ''pd'', PyModule (ascii ''pandas'')),
      (ascii ''datetime'', PyModule (ascii ''datetime''))]"

text \<open>
  \<open>exec(source, globals, locals)\<close> runs the statements of \<open>source\<close>: it raises, or it
  returns and leaves the (mutated) \<open>locals\<close> dictionary. What the statements do is the
  interpreter's business, so \<open>exec\<close> is a parameter.
\<close>

datatype exec_outcome = ExecRaises thrown | ExecDone namespace

type_synonym interpreter = "pystr \<Rightarrow> namespace \<Rightarrow> namespace \<Rightarrow> exec_outcome"

text \<open>
  How the executed code reads a name at its top level: the \<open>locals\<close> dictionary first, the
  \<open>globals\<close> dictionary next (the builtins come after both and are not listed here).
\<close>

definition resolve :: "namespace \<Rightarrow> namespace \<Rightarrow> pystr \<Rightarrow> pyval option" where
  "resolve globs locs name =
     (case map_of locs name of Some v \<Rightarrow> Some v | None \<Rightarrow> map_of globs name)"

text \<open>
  The interpreter on the one-statement source \<open>result = NAME\<close>, for a bare identifier
  \<open>NAME\<close>: the name is read (locals, globals, then the builtins \<open>b\<close>) and bound to
  \<open>result\<close> in the locals; an unbound name raises \<open>NameError\<close>.
\<close>

definition exec_name :: "namespace \<Rightarrow> interpreter" where
  "exec_name b src globs locs =
     (let name = drop 9 src in
      case resolve (globs @ b) locs name of
        Some v \<Rightarrow> ExecDone ((ascii ''result'', v) # locs)
      | None \<Rightarrow>
          ExecRaises (Thrown NameError
            (Inr (ascii ''name '' @ [39] @ name @ [39] @ ascii '' is not defined''))))"

text \<open>The text handed to \<open>exec\<close> (line 131).\<close>

definition exec_source :: "pystr \<Rightarrow> pystr" where
  "exec_source code = ascii ''result = '' @ code"

text \<open>The prefix of the error string of line 134 (four Chinese characters, a colon and a
  space), and the marker that \<open>query\<close> looks for (its third and fourth characters).\<close>

definition exec_error_prefix :: pystr where
  "exec_error_prefix = [25191, 34892, 20986, 38169, 58, 32]"

definition error_marker :: pystr where
  "error_marker = [20986, 38169]"

text \<open>\<open>local_vars.get("result")\<close>.\<close>

definition get_result :: "namespace \<Rightarrow> pyval" where
  "get_result ns = (case map_of ns (ascii ''result'') of None \<Rightarrow> PyNone | Some v \<Rightarrow> v)"

text \<open>
  Lines 129 to 134. \<open>str(e)\<close> is evaluated inside the handler, so what it raises leaves
  \<open>execute_code\<close>, like an exception that \<open>except Exception\<close> does not catch.
\<close>

definition execute_code :: "interpreter \<Rightarrow> pystr \<Rightarrow> pyexc + (event list \<times> pyval)" where
  "execute_code exec code =
     (case exec (exec_source code) module_globals local_vars of
        ExecDone ns \<Rightarrow> Inr ([Exec (exec_source code)], get_result ns)
      | ExecRaises (Thrown c t) \<Rightarrow>
          if derives_Exception c then
            (case t of
               Inr m \<Rightarrow> Inr ([Exec (exec_source code)], PyStr (exec_error_prefix @ m))
             | Inl e \<Rightarrow> Inl e)
          else Inl (exc_of (Thrown c t)))"

section \<open>\<open>NLDataQuery.query\<close>\<close>

text \<open>The fields of the instance that \<open>query\<close> and \<open>save_result\<close> read or write.\<close>

record nl_data_query =
  debug_mode :: bool
  last_result :: pyval
  last_query :: "pystr option"

record world =
  post :: endpoint
  exec :: interpreter
  console :: console

text \<open>Truth value of an \<open>Optional[str]\<close>: \<open>None\<close> and the empty string are false.\<close>

fun truthy :: "pystr option \<Rightarrow> bool" where
  "truthy None = False"
| "truthy (Some s) = (s \<noteq> [])"

text \<open>The line of line 230 (\<open>[dim]\<close>, five Chinese characters, a colon, a space, the
  payload, \<open>[/dim]\<close>) and the text of the error panel of line 242.\<close>

definition debug_line :: "pystr \<Rightarrow> pystr" where
  "debug_line content =
     ascii ''[dim]'' @ [29983, 25104, 30340, 20195, 30721, 58, 32] @ content @ ascii ''[/dim]''"

definition error_panel_text :: "pystr \<Rightarrow> pystr" where
  "error_panel_text result = ascii ''[red]'' @ result @ ascii ''[/red]''"

text \<open>
  Lines 239 to 260: the panel for an evaluation result. The first branch is
  \<open>isinstance(result, str) and error_marker in result\<close>; it clears \<open>last_result\<close> after the
  panel is printed (line 246). A print that raises leaves the function at once.
\<close>

fun show_result :: "console \<Rightarrow> nl_data_query \<Rightarrow> pyval \<Rightarrow> pyexc + (event list \<times> nl_data_query)" where
  "show_result cons self (PyStr s) =
     (if sublist error_marker s then
        (case print_markup cons (error_panel_text s) of
           Some t \<Rightarrow> Inl (exc_of t)
         | None \<Rightarrow> Inr ([ErrorPanel s], self\<lparr>last_result := PyNone\<rparr>))
      else
        (case print_markup cons s of
           Some t \<Rightarrow> Inl (exc_of t)
         | None \<Rightarrow> Inr ([ResultPanel (PyStr s)], self)))"
| "show_result cons self (PyDataFrame df) =
     (case print_table cons df of
        Some t \<Rightarrow> Inl (exc_of t)
      | None \<Rightarrow> Inr ([TablePanel df (length (rows df)), SaveHint], self))"
| "show_result cons self v =
     (case print_object cons v of
        Some t \<Rightarrow> Inl (exc_of t)
      | None \<Rightarrow> Inr ([ResultPanel v], self))"

text \<open>
  \<open>query\<close> returns (\<open>Inr\<close>) what it printed and the instance, or raises (\<open>Inl\<close>) with the
  exception, what had happened until then and the instance as the exception leaves it.
\<close>

definition query ::
  "world \<Rightarrow> nl_data_query \<Rightarrow> pystr
     \<Rightarrow> (pyexc \<times> event list \<times> nl_data_query) + (event list \<times> nl_data_query)" where
  "query w self natural_language =
     (case call_deepseek (console w) (post w) natural_language of
        Inl e \<Rightarrow> Inl (e, [], self)
      | Inr (out1, (query_type, content)) \<Rightarrow>
          if \<not> truthy query_type \<or> \<not> truthy content then
            Inr (out1 @ [QueryFailedPanel], self)
          else
            (case content of
               None \<Rightarrow> Inr (out1 @ [QueryFailedPanel], self)
             | Some c \<Rightarrow>
                 if query_type = Some (ascii ''explain'') then
                   Inr (out1 @ [AnswerPanel c], self\<lparr>last_result := PyNone\<rparr>)
                 else
                   (case (if debug_mode self then print_markup (console w) (debug_line c)
                          else None) of
                      Some t \<Rightarrow> Inl (exc_of t, out1, self)
                    | None \<Rightarrow>
                        (case execute_code (exec w) c of
                           Inl e \<Rightarrow>
                             Inl (e, out1 @ (if debug_mode self then [DebugCode c] else [])
                                       @ [Exec (exec_source c)], self)
                         | Inr (out2, result) \<Rightarrow>
                             (case show_result (console w)
                                     (self\<lparr>last_result := result,
                                           last_query := Some natural_language\<rparr>) result of
                                Inl e \<Rightarrow>
                                  Inl (e, out1 @ (if debug_mode self then [DebugCode c] else [])
                                            @ out2,
                                       self\<lparr>last_result := result,
                                            last_query := Some natural_language\<rparr>)
                              | Inr (out3, self') \<Rightarrow>
                                  Inr (out1 @ (if debug_mode self then [DebugCode c] else [])
                                         @ out2 @ out3, self'))))))"

section \<open>\<open>NLDataQuery.save_result\<close>\<close>

text \<open>
  What \<open>save_result\<close> asks of its surroundings: whether the folder \<open>data\<close> exists, whether
  creating it and writing the file (\<open>to_csv\<close>, or \<open>open\<close>, \<open>str\<close> and \<open>write\<close>) succeed, the
  formatted current time, \<open>str.isalnum\<close> on one character, \<open>os.path.abspath\<close> of the joined
  path, and the console.
\<close>

record file_system =
  folder_exists :: bool
  makedirs_raises :: "thrown option"
  write_raises :: "thrown option"
  now_stamp :: pystr
  isalnum :: "nat \<Rightarrow> bool"
  abspath :: "pystr \<Rightarrow> pystr \<Rightarrow> pystr"
  printing :: console

definition data_folder :: pystr where
  "data_folder = ascii ''data''"

text \<open>The characters kept besides the alphanumeric ones (line 179): dot, underscore, hyphen,
  space and two Chinese characters.\<close>

definition kept_chars :: pystr where
  "kept_chars = [46, 95, 45, 32, 20013, 25991]"

text \<open>Lines 176 to 182; iterating over \<open>last_query = None\<close> raises.\<close>

definition default_filename :: "file_system \<Rightarrow> pystr option \<Rightarrow> pyexc + pystr" where
  "default_filename fs q =
     (case q of
        None \<Rightarrow> Inl (Interp TypeError)
      | Some s \<Rightarrow>
          Inr (take 30 (filter (\<lambda>c. isalnum fs c \<or> c \<in> set kept_chars) s)
               @ ascii ''_'' @ now_stamp fs @ ascii ''.csv''))"

text \<open>Lines 185 and 186.\<close>

definition ensure_csv :: "pystr \<Rightarrow> pystr" where
  "ensure_csv filename =
     (if \<not> suffix (ascii ''.csv'') filename then filename @ ascii ''.csv'' else filename)"

text \<open>The lines printed at lines 194 and 199 (\<open>[green]\<close>, a check mark, six Chinese
  characters, the absolute path, \<open>[/green]\<close>) and the fixed part of the one of line 201.\<close>

definition saved_line :: "pystr \<Rightarrow> pystr" where
  "saved_line path =
     ascii ''[green]'' @ [10003, 32, 25968, 25454, 24050, 20445, 23384, 21040, 58, 32]
       @ path @ ascii ''[/green]''"

definition save_failed_line :: pystr where
  "save_failed_line = ascii ''[red]'' @ [10007, 32, 20445, 23384, 22833, 36133, 58, 32]"

text \<open>Lines 192 to 198: the file written. The path is \<open>os.path.join(data_folder, filename)\<close>,
  kept as its two parts.\<close>

fun write_event :: "pyval \<Rightarrow> pystr \<Rightarrow> event" where
  "write_event (PyDataFrame df) filename = WriteCsv data_folder filename df"
| "write_event v filename = WriteText data_folder filename v"

text \<open>The body of the \<open>try\<close> (lines 170 to 199): what happened, and the exception that
  ended it, if any.\<close>

definition save_result_body ::
  "file_system \<Rightarrow> nl_data_query \<Rightarrow> pystr option \<Rightarrow> event list \<times> pyexc option" where
  "save_result_body fs self filename =
     (case (if folder_exists fs then None else makedirs_raises fs) of
        Some t \<Rightarrow> ([], Some (exc_of t))
      | None \<Rightarrow>
          (case (case filename of None \<Rightarrow> default_filename fs (last_query self)
                 | Some f \<Rightarrow> Inr f) of
             Inl e \<Rightarrow> (if folder_exists fs then [] else [MakeDirs data_folder], Some e)
           | Inr f \<Rightarrow>
               (case write_raises fs of
                  Some t \<Rightarrow>
                    (if folder_exists fs then [] else [MakeDirs data_folder], Some (exc_of t))
                | None \<Rightarrow>
                    (case print_markup (printing fs)
                            (saved_line (abspath fs data_folder (ensure_csv f))) of
                       Some t \<Rightarrow>
                         ((if folder_exists fs then [] else [MakeDirs data_folder])
                            @ [write_event (last_result self) (ensure_csv f)],
                          Some (exc_of t))
                     | None \<Rightarrow>
                         ((if folder_exists fs then [] else [MakeDirs data_folder])
                            @ [write_event (last_result self) (ensure_csv f),
                               SavedTo data_folder (ensure_csv f)],
                          None)))))"

text \<open>Lines 165 to 167 and the handler of lines 200 and 201, whose own print may raise.\<close>

definition save_result :: "file_system \<Rightarrow> nl_data_query \<Rightarrow> pystr option \<Rightarrow> pyexc + event list" where
  "save_result fs self filename =
     (if last_result self = PyNone then Inr [NoDataToSave]
      else
        (case save_result_body fs self filename of
           (out, None) \<Rightarrow> Inr out
         | (out, Some e) \<Rightarrow>
             if derives_Exception (class_of e) then
               (case print_exc (printing fs) save_failed_line e (ascii ''[/red]'') of
                  Some e' \<Rightarrow> Inl e'
                | None \<Rightarrow> Inr (out @ [SaveFailed e]))
             else Inl e))"

section \<open>Example surroundings\<close>

text \<open>
  A console on which every print succeeds and one that raises \<open>MarkupError\<close>, with the
  given message, on one given text; a one-row DataFrame; an endpoint that answers with a
  data query whose evaluation returns that frame; an endpoint that cannot be reached; a
  file system in which the folder exists and writing succeeds; and a new instance (lines 29
  to 31).
\<close>

definition plain_console :: console where
  "plain_console =
     \<lparr>print_markup = (\<lambda>t. None), print_table = (\<lambda>df. None), print_object = (\<lambda>v. None)\<rparr>"

definition rejecting_console :: "pystr \<Rightarrow> pystr \<Rightarrow> console" where
  "rejecting_console bad message =
     \<lparr>print_markup = (\<lambda>t. if t = bad then Some (Thrown MarkupError (Inr message)) else None),
      print_table = (\<lambda>df. None), print_object = (\<lambda>v. None)\<rparr>"

definition example_frame :: dataframe where
  "example_frame = \<lparr>columns = [ascii ''date'', ascii ''close''],
                     rows = [[ascii ''2024-01-02'', ascii ''2962.28'']]\<rparr>"

definition fetching_world :: world where
  "fetching_world =
     \<lparr>post = replies 200 (ascii ''CODE|ak.stock_zh_a_spot_em().tail(1)''),
      exec = (\<lambda>src globs locs. ExecDone ((ascii ''result'', PyDataFrame example_frame) # locs)),
      console = plain_console\<rparr>"

definition unreachable_world :: world where
  "unreachable_world =
     \<lparr>post = (\<lambda>prompt. PostRaises (Thrown RequestException (Inr (ascii ''timed out'')))),
      exec = (\<lambda>src globs locs. ExecDone ((ascii ''result'', PyDataFrame example_frame) # locs)),
      console = plain_console\<rparr>"

definition example_fs :: file_system where
  "example_fs =
     \<lparr>folder_exists = True, makedirs_raises = None, write_raises = None,
      now_stamp = ascii ''20240102_093000'',
      isalnum = (\<lambda>c. (48 \<le> c \<and> c \<le> 57) \<or> (65 \<le> c \<and> c \<le> 90) \<or> (97 \<le> c \<and> c \<le> 122)),
      abspath = (\<lambda>folder name. ascii ''/home/user/'' @ folder @ ascii ''/'' @ name),
      printing = plain_console\<rparr>"

definition fresh :: nl_data_query where
  "fresh = \<lparr>debug_mode = False, last_result = PyNone, last_query = None\<rparr>"

text \<open>
  The message of the console library for a closing tag that closes nothing, and a one-line
  expression that raises an exception whose \<open>__str__\<close> raises \<open>ZeroDivisionError\<close>.
\<close>

definition unmatched_tag_message :: "pystr \<Rightarrow> pystr \<Rightarrow> pystr" where
  "unmatched_tag_message tag position =
     ascii ''closing tag '' @ [39] @ tag @ [39] @ ascii '' at position '' @ position
       @ ascii '' doesn'' @ [39] @ ascii ''t match any open tag''"

definition unprintable_code :: pystr where
  "unprintable_code =
     ascii ''(_ for _ in ()).throw(type('' @ [34] @ ascii ''E'' @ [34]
       @ ascii '',(Exception,),{'' @ [34] @ ascii ''__str__'' @ [34]
       @ ascii '':lambda s:1/0})())''"

section \<open>Facts about \<open>strip\<close> and the calls\<close>

lemma ascii_CODE: "ascii ''CODE|'' = [67, 79, 68, 69, 124]"
  by (simp add: ascii_def)

lemma ascii_EXPLAIN: "ascii ''EXPLAIN|'' = [69, 88, 80, 76, 65, 73, 78, 124]"
  by (simp add: ascii_def)

lemma rstrip_Cons: "rstrip (x # xs) = (if rstrip xs = [] \<and> isspace x then [] else x # rstrip xs)"
  by (auto simp: rstrip_def dropWhile_append)

lemma rstrip_Nil: "rstrip [] = []" by (simp add: rstrip_def)

lemma lstrip_rstrip: "lstrip (rstrip s) = rstrip (lstrip s)"
  by (induction s) (auto simp: rstrip_Cons rstrip_Nil lstrip_def)

lemma rstrip_idem: "rstrip (rstrip s) = rstrip s"
  by (simp add: rstrip_def)

lemma strip_rstrip: "strip (rstrip s) = strip s"
  by (simp add: strip_def lstrip_rstrip rstrip_idem)

lemma rstrip_append_keep:
  assumes "p \<noteq> []" and "\<not> isspace (last p)"
  shows "rstrip (p @ X) = p @ rstrip X"
proof -
  have "dropWhile isspace (rev p) = rev p"
    using assms by (cases "rev p") (auto simp: last_rev[symmetric])
  then show ?thesis
    by (simp add: rstrip_def dropWhile_append)
qed

lemma strip_tagged:
  assumes "p \<noteq> []" "\<not> isspace (hd p)" "\<not> isspace (last p)"
  shows "strip (p @ X) = p @ rstrip X"
proof -
  have "lstrip (p @ X) = p @ X"
    using assms by (cases p) (auto simp: lstrip_def)
  then show ?thesis
    using assms by (simp add: strip_def rstrip_append_keep)
qed

lemma strip_CODE: "strip (ascii ''CODE|'' @ X) = ascii ''CODE|'' @ rstrip X"
  by (rule strip_tagged) (simp_all add: ascii_CODE isspace_def)

lemma strip_EXPLAIN: "strip (ascii ''EXPLAIN|'' @ X) = ascii ''EXPLAIN|'' @ rstrip X"
  by (rule strip_tagged) (simp_all add: ascii_EXPLAIN isspace_def)

lemma parse_CODE: "parse_content (strip (ascii ''CODE|'' @ X)) = (Some (ascii ''code''), Some (strip X))"
  by (simp add: strip_CODE parse_content_def) (simp add: ascii_CODE strip_rstrip)

lemma not_prefix_CODE_EXPLAIN: "\<not> prefix (ascii ''CODE|'') (ascii ''EXPLAIN|'' @ X)"
  by (simp add: ascii_CODE ascii_EXPLAIN)

lemma parse_EXPLAIN: "parse_content (strip (ascii ''EXPLAIN|'' @ X)) = (Some (ascii ''explain''), Some (strip X))"
  by (simp add: strip_EXPLAIN parse_content_def not_prefix_CODE_EXPLAIN) (simp add: ascii_EXPLAIN strip_rstrip)

lemma bind_exc_Inr: "bind_exc (Inr x) f = f x"
  by (simp add: bind_exc_def)

lemma bind_exc_Inl: "bind_exc (Inl e) f = Inl e"
  by (simp add: bind_exc_def)

lemma call_deepseek_body_content:
  assumes "ep prompt = PostReturns r" "json_body r = Inr (JObj kvs)"
    "map_of kvs (ascii ''choices'') = Some (JArr (JObj ckvs # rest))"
    "map_of ckvs (ascii ''message'') = Some (JObj mkvs)"
    "map_of mkvs (ascii ''content'') = Some (JStr msg)"
  shows "call_deepseek_body ep prompt = Inr (parse_content (strip msg))"
proof -
  have "ascii ''choices'' \<in> set (map fst kvs)"
    using assms(3) by (force dest: map_of_SomeD)
  then show ?thesis
    using assms by (simp add: call_deepseek_body_def bind_exc_def)
qed

lemma call_deepseek_content:
  assumes "ep prompt = PostReturns r" "json_body r = Inr (JObj kvs)"
    "map_of kvs (ascii ''choices'') = Some (JArr (JObj ckvs # rest))"
    "map_of ckvs (ascii ''message'') = Some (JObj mkvs)"
    "map_of mkvs (ascii ''content'') = Some (JStr msg)"
  shows "call_deepseek cons ep prompt = Inr ([], parse_content (strip msg))"
  using call_deepseek_body_content[of ep prompt r kvs ckvs rest mkvs msg] assms
  by (simp add: call_deepseek_def)

lemma call_deepseek_replies:
  "call_deepseek cons (replies st msg) prompt = Inr ([], parse_content (strip msg))"
  by (simp add: call_deepseek_def call_deepseek_body_def bind_exc_def replies_def
        chat_completion_def)

lemma call_deepseek_events:
  "call_deepseek cons ep prompt = Inr (out, r) \<Longrightarrow> out = [] \<or> (\<exists>e. out = [ApiCallFailed e])"
  by (auto simp: call_deepseek_def split: sum.splits if_splits option.splits)

lemma call_deepseek_no_Exec:
  "call_deepseek cons ep prompt = Inr (out, r) \<Longrightarrow> Exec src \<notin> set out"
  by (auto dest: call_deepseek_events)

lemma call_deepseek_no_Answer:
  "call_deepseek cons ep prompt = Inr (out, r) \<Longrightarrow> AnswerPanel y \<notin> set out"
  by (auto dest: call_deepseek_events)

lemma first_not_object:
  "\<not> (\<exists>x xs. v = JArr (x # xs)) \<Longrightarrow>
   bind_exc (py_len v) (\<lambda>n. if n > 0 then
       bind_exc (py_first v) (\<lambda>choice. bind_exc (py_getitem choice key) f)
     else Inr (None, None)) = Inr (None, None)
   \<or> (\<exists>c. bind_exc (py_len v) (\<lambda>n. if n > 0 then
       bind_exc (py_first v) (\<lambda>choice. bind_exc (py_getitem choice key) f)
     else Inr (None, None)) = Inl (Interp c) \<and> derives_Exception c)"
proof (cases v)
  case (JStr s)
  then show ?thesis by (cases s) (simp_all add: bind_exc_def)
next
  case (JArr xs)
  assume "\<not> (\<exists>x xs. v = JArr (x # xs))"
  with JArr have "xs = []" by (cases xs) simp_all
  with JArr show ?thesis by (simp add: bind_exc_def)
qed (simp_all add: bind_exc_def)

lemma body_without_choices:
  assumes "ep prompt = PostReturns r" "json_body r = Inr j" "\<not> nonempty_choices j"
  shows "call_deepseek_body ep prompt = Inr (None, None)
       \<or> (\<exists>c. call_deepseek_body ep prompt = Inl (Interp c) \<and> derives_Exception c)"
proof (cases j)
  case (JObj kvs)
  show ?thesis
  proof (cases "map_of kvs (ascii ''choices'')")
    case None
    then have "ascii ''choices'' \<notin> set (map fst kvs)"
      by (simp add: map_of_eq_None_iff)
    with assms JObj show ?thesis
      by (simp add: call_deepseek_body_def bind_exc_def)
  next
    case (Some v)
    then have mem: "ascii ''choices'' \<in> set (map fst kvs)"
      by (force dest: map_of_SomeD)
    from Some assms(3) JObj have nv: "\<not> (\<exists>x xs. v = JArr (x # xs))"
      by auto
    let ?F = "\<lambda>message. bind_exc (py_getitem message (ascii ''content''))
                (\<lambda>c. bind_exc (py_strip c) (\<lambda>content. Inr (parse_content content)))"
    have eq: "call_deepseek_body ep prompt =
        bind_exc (py_len v) (\<lambda>n. if n > 0 then
          bind_exc (py_first v) (\<lambda>choice. bind_exc (py_getitem choice (ascii ''message'')) ?F)
        else Inr (None, None))"
      using assms(1,2) JObj Some mem
      by (simp add: call_deepseek_body_def bind_exc_Inr cong: if_cong)
    from first_not_object[OF nv, of "ascii ''message''" ?F] show ?thesis
      by (simp only: eq)
  qed
next
  case (JStr s)
  with assms show ?thesis
    by (simp add: call_deepseek_body_def bind_exc_def)
next
  case (JArr xs)
  with assms show ?thesis
    by (simp add: call_deepseek_body_def bind_exc_def)
qed (use assms in \<open>simp_all add: call_deepseek_body_def bind_exc_def\<close>)

lemmas eval_strings = parse_content_def strip_def lstrip_def rstrip_def isspace_def ascii_def

lemma show_result_no_Exec:
  "show_result cons s v = Inr (out, s') \<Longrightarrow> Exec x \<in> set out \<Longrightarrow> False"
  by (cases v) (auto split: if_splits option.splits)

lemma show_result_no_Answer:
  "show_result cons s v = Inr (out, s') \<Longrightarrow> AnswerPanel y \<in> set out \<Longrightarrow> False"
  by (cases v) (auto split: if_splits option.splits)

lemma exec_source_inj: "exec_source a = exec_source b \<longleftrightarrow> a = b"
  by (simp add: exec_source_def)

lemma execute_code_events:
  "execute_code ex c = Inr (out, v) \<Longrightarrow> out = [Exec (exec_source c)]"
  by (auto simp: execute_code_def split: exec_outcome.splits thrown.splits sum.splits if_splits)


lemma query_shape:
  assumes "query w self q = Inr (out, self')"
  shows "(\<exists>out1 r. call_deepseek (console w) (post w) q = Inr (out1, r)
            \<and> out = out1 @ [QueryFailedPanel] \<and> self' = self)
       \<or> (\<exists>out1 c. call_deepseek (console w) (post w) q
              = Inr (out1, (Some (ascii ''explain''), Some c))
            \<and> c \<noteq> [] \<and> out = out1 @ [AnswerPanel c] \<and> self' = self\<lparr>last_result := PyNone\<rparr>)
       \<or> (\<exists>out1 k c result out3.
            call_deepseek (console w) (post w) q = Inr (out1, (Some k, Some c)) \<and> c \<noteq> []
            \<and> execute_code (exec w) c = Inr ([Exec (exec_source c)], result)
            \<and> show_result (console w) (self\<lparr>last_result := result, last_query := Some q\<rparr>) result
                = Inr (out3, self')
            \<and> out = out1 @ (if debug_mode self then [DebugCode c] else [])
                      @ [Exec (exec_source c)] @ out3)"
proof (cases "call_deepseek (console w) (post w) q")
  case (Inl e)
  with assms show ?thesis by (simp add: query_def)
next
  case (Inr res)
  obtain out1 query_type content where res: "res = (out1, (query_type, content))"
    by (cases res) auto
  show ?thesis
  proof (cases "\<not> truthy query_type \<or> \<not> truthy content")
    case True
    with assms Inr res show ?thesis by (auto simp: query_def)
  next
    case False
    then obtain k c where kc: "query_type = Some k" "content = Some c" "k \<noteq> []" "c \<noteq> []"
      by (cases query_type; cases content) auto
    show ?thesis
    proof (cases "k = ascii ''explain''")
      case True
      with assms Inr res kc show ?thesis by (auto simp: query_def)
    next
      case ne: False
      show ?thesis
      proof (cases "if debug_mode self then print_markup (console w) (debug_line c) else None")
        case (Some t)
        with assms Inr res kc ne show ?thesis by (simp add: query_def)
      next
        case dbg: None
        show ?thesis
        proof (cases "execute_code (exec w) c")
          case (Inl e)
          with assms Inr res kc ne dbg show ?thesis by (simp add: query_def)
        next
          case ev: (Inr p)
          obtain out2 result where p: "p = (out2, result)" by (cases p) auto
          with ev have o2: "out2 = [Exec (exec_source c)]"
            by (auto dest: execute_code_events)
          show ?thesis
          proof (cases "show_result (console w)
                          (self\<lparr>last_result := result, last_query := Some q\<rparr>) result")
            case (Inl e)
            with assms Inr res kc ne dbg ev p show ?thesis by (simp add: query_def)
          next
            case sr: (Inr p3)
            obtain out3 s3 where "p3 = (out3, s3)" by (cases p3) auto
            with sr assms Inr res kc ne dbg ev p o2 show ?thesis
              by (auto simp: query_def)
          qed
        qed
      qed
    qed
  qed
qed

lemma exec_name_unbound:
  "exec_name [] (exec_source (ascii ''nope'')) module_globals local_vars
     = ExecRaises (Thrown NameError
         (Inr (ascii ''name '' @ [39] @ ascii ''nope'' @ [39] @ ascii '' is not defined'')))"
  by (simp add: exec_name_def exec_source_def resolve_def module_globals_def local_vars_def ascii_def)



lemma sublist_marker_tag: "sublist error_marker (error_marker @ t)"
  by simp

section \<open>The tagged response\<close>

text \<open>
  Claim C5. For every response text \<open>CODE|X\<close>, whatever else the decoded body holds and
  whatever the console, \<open>call_deepseek\<close> returns the kind \<open>code\<close> with the payload \<open>X\<close> stripped
  of leading and trailing whitespace, and prints nothing.
\<close>

theorem call_deepseek_code_tag:
  assumes "ep prompt = PostReturns r"
    and "json_body r = Inr (JObj kvs)"
    and "map_of kvs (ascii ''choices'') = Some (JArr (JObj ckvs # rest))"
    and "map_of ckvs (ascii ''message'') = Some (JObj mkvs)"
    and "map_of mkvs (ascii ''content'') = Some (JStr (ascii ''CODE|'' @ X))"
  shows "call_deepseek cons ep prompt = Inr ([], (Some (ascii ''code''), Some (strip X)))"
  using call_deepseek_content[of ep prompt r kvs ckvs rest mkvs "ascii ''CODE|'' @ X"] assms
  by (simp add: parse_CODE)

theorem call_deepseek_code_tag_witness:
  "call_deepseek plain_console (replies 200 (ascii ''CODE|'' @ ascii '' ak.f(1) '')) (ascii ''q'')
     = Inr ([], (Some (ascii ''code''), Some (ascii ''ak.f(1)'')))"
proof -
  have s: "strip (ascii '' ak.f(1) '') = ascii ''ak.f(1)''"
    by (simp add: eval_strings)
  show ?thesis
    using call_deepseek_code_tag[of "replies 200 (ascii ''CODE|'' @ ascii '' ak.f(1) '')"
        "ascii ''q''"
        "\<lparr>status_code = 200,
          json_body = Inr (chat_completion (ascii ''CODE|'' @ ascii '' ak.f(1) ''))\<rparr>"
        "[(ascii ''choices'', JArr [JObj [(ascii ''message'',
            JObj [(ascii ''content'', JStr (ascii ''CODE|'' @ ascii '' ak.f(1) ''))])]])]"
        "[(ascii ''message'',
            JObj [(ascii ''content'', JStr (ascii ''CODE|'' @ ascii '' ak.f(1) ''))])]"
        "[]"
        "[(ascii ''content'', JStr (ascii ''CODE|'' @ ascii '' ak.f(1) ''))]"
        "ascii '' ak.f(1) ''"]
    by (simp add: replies_def chat_completion_def s)
qed

text \<open>
  Claim C6, as stated (the payload is exactly \<open>X\<close>), fails: for the response text
  \<open>EXPLAIN| hi\<close> the payload is \<open>hi\<close>, without the leading space of \<open>X\<close>.
\<close>

theorem explain_payload_counterexample:
  "call_deepseek plain_console (replies 200 (ascii ''EXPLAIN|'' @ ascii '' hi'')) (ascii ''q'')
     = Inr ([], (Some (ascii ''explain''), Some (ascii ''hi'')))
   \<and> ascii ''hi'' \<noteq> ascii '' hi''"
  by (simp add: call_deepseek_replies eval_strings)

text \<open>
  Claim C6, amended. For every response text \<open>EXPLAIN|X\<close>, \<open>call_deepseek\<close> returns the kind
  \<open>explain\<close> with the payload \<open>X\<close> stripped of leading and trailing whitespace (line 116
  calls \<open>strip\<close>, as line 114 does for \<open>CODE|\<close>).
\<close>

theorem call_deepseek_explain_tag:
  assumes "ep prompt = PostReturns r"
    and "json_body r = Inr (JObj kvs)"
    and "map_of kvs (ascii ''choices'') = Some (JArr (JObj ckvs # rest))"
    and "map_of ckvs (ascii ''message'') = Some (JObj mkvs)"
    and "map_of mkvs (ascii ''content'') = Some (JStr (ascii ''EXPLAIN|'' @ X))"
  shows "call_deepseek cons ep prompt = Inr ([], (Some (ascii ''explain''), Some (strip X)))"
  using call_deepseek_content[of ep prompt r kvs ckvs rest mkvs "ascii ''EXPLAIN|'' @ X"] assms
  by (simp add: parse_EXPLAIN)

theorem call_deepseek_explain_tag_witness:
  "call_deepseek plain_console (replies 200 (ascii ''EXPLAIN|'' @ ascii '' PE is a ratio.'')) (ascii ''q'')
     = Inr ([], (Some (ascii ''explain''), Some (ascii ''PE is a ratio.'')))"
proof -
  have s: "strip (ascii '' PE is a ratio.'') = ascii ''PE is a ratio.''"
    by (simp add: eval_strings)
  show ?thesis
    using call_deepseek_explain_tag[of
        "replies 200 (ascii ''EXPLAIN|'' @ ascii '' PE is a ratio.'')"
        "ascii ''q''"
        "\<lparr>status_code = 200,
          json_body = Inr (chat_completion (ascii ''EXPLAIN|'' @ ascii '' PE is a ratio.''))\<rparr>"
        "[(ascii ''choices'', JArr [JObj [(ascii ''message'',
            JObj [(ascii ''content'', JStr (ascii ''EXPLAIN|'' @ ascii '' PE is a ratio.''))])]])]"
        "[(ascii ''message'',
            JObj [(ascii ''content'', JStr (ascii ''EXPLAIN|'' @ ascii '' PE is a ratio.''))])]"
        "[]"
        "[(ascii ''content'', JStr (ascii ''EXPLAIN|'' @ ascii '' PE is a ratio.''))]"
        "ascii '' PE is a ratio.''"]
    by (simp add: replies_def chat_completion_def s)
qed

text \<open>
  Claim C7, as stated (the payload is the full response text), fails: the response text
  \<open> hi\<close> (with a leading space) starts with neither tag, and the payload is \<open>hi\<close>.
\<close>

theorem untagged_payload_counterexample:
  "\<not> prefix (ascii ''CODE|'') (ascii '' hi'') \<and> \<not> prefix (ascii ''EXPLAIN|'') (ascii '' hi'')
   \<and> call_deepseek plain_console (replies 200 (ascii '' hi'')) (ascii ''q'')
     = Inr ([], (Some (ascii ''code''), Some (ascii ''hi'')))
   \<and> ascii ''hi'' \<noteq> ascii '' hi''"
  by (simp add: call_deepseek_replies eval_strings)

text \<open>
  Claim C7, amended. The tags are looked for in the stripped response text (line 110):
  when the stripped text starts with neither \<open>CODE|\<close> nor \<open>EXPLAIN|\<close>, \<open>call_deepseek\<close>
  returns the kind \<open>code\<close> with the stripped text as payload.
\<close>

theorem call_deepseek_untagged:
  assumes "ep prompt = PostReturns r"
    and "json_body r = Inr (JObj kvs)"
    and "map_of kvs (ascii ''choices'') = Some (JArr (JObj ckvs # rest))"
    and "map_of ckvs (ascii ''message'') = Some (JObj mkvs)"
    and "map_of mkvs (ascii ''content'') = Some (JStr msg)"
    and "\<not> prefix (ascii ''CODE|'') (strip msg)"
    and "\<not> prefix (ascii ''EXPLAIN|'') (strip msg)"
  shows "call_deepseek cons ep prompt = Inr ([], (Some (ascii ''code''), Some (strip msg)))"
  using call_deepseek_content[of ep prompt r kvs ckvs rest mkvs msg] assms
  by (simp add: parse_content_def)

theorem call_deepseek_untagged_witness:
  "call_deepseek plain_console (replies 200 (ascii ''ak.f(2) '')) (ascii ''q'')
     = Inr ([], (Some (ascii ''code''), Some (ascii ''ak.f(2)'')))"
proof -
  have s: "strip (ascii ''ak.f(2) '') = ascii ''ak.f(2)''"
    by (simp add: eval_strings)
  have n: "\<not> prefix (ascii ''CODE|'') (ascii ''ak.f(2)'')"
          "\<not> prefix (ascii ''EXPLAIN|'') (ascii ''ak.f(2)'')"
    by (simp_all add: ascii_def)
  show ?thesis
    using call_deepseek_untagged[of "replies 200 (ascii ''ak.f(2) '')" "ascii ''q''"
        "\<lparr>status_code = 200, json_body = Inr (chat_completion (ascii ''ak.f(2) ''))\<rparr>"
        "[(ascii ''choices'', JArr [JObj [(ascii ''message'',
            JObj [(ascii ''content'', JStr (ascii ''ak.f(2) ''))])]])]"
        "[(ascii ''message'', JObj [(ascii ''content'', JStr (ascii ''ak.f(2) ''))])]"
        "[]"
        "[(ascii ''content'', JStr (ascii ''ak.f(2) ''))]"
        "ascii ''ak.f(2) ''"] n
    by (simp add: replies_def chat_completion_def s)
qed

section \<open>Failure of the remote call\<close>

text \<open>
  Claim C3, as stated, fails twice. The status code is never read, so a response with
  status 500 whose body carries a choice is classified like any other. And the handler
  prints the message of the failure as markup (line 124): when the message holds a closing
  tag that closes nothing, the console raises and the exception leaves \<open>call_deepseek\<close>.
\<close>

theorem unrecognized_counterexample:
  "call_deepseek plain_console (replies 500 (ascii ''CODE|1'')) (ascii ''q'')
     = Inr ([], (Some (ascii ''code''), Some (ascii ''1'')))
   \<and> call_deepseek
        (rejecting_console (api_failed_line @ ascii ''bad [/x] tag'')
           (unmatched_tag_message (ascii ''[/x]'') (ascii ''26'')))
        (\<lambda>prompt. PostRaises (Thrown RequestException (Inr (ascii ''bad [/x] tag''))))
        (ascii ''q'')
     = Inl (Raised MarkupError (unmatched_tag_message (ascii ''[/x]'') (ascii ''26'')))"
  by (simp add: call_deepseek_replies eval_strings)
     (simp add: call_deepseek_def call_deepseek_body_def rejecting_console_def)

lemma failed_call:
  assumes "(\<exists>c m. ep q = PostRaises (Thrown c (Inr m)) \<and> derives_Exception c
              \<and> print_markup cons (api_failed_line @ m) = None)
         \<or> (\<exists>r c m. ep q = PostReturns r \<and> json_body r = Inl (Thrown c (Inr m))
              \<and> derives_Exception c \<and> print_markup cons (api_failed_line @ m) = None)
         \<or> (\<exists>r j. ep q = PostReturns r \<and> json_body r = Inr j \<and> \<not> nonempty_choices j)"
  shows "call_deepseek cons ep q = Inr ([], (None, None))
       \<or> (\<exists>e. call_deepseek cons ep q = Inr ([ApiCallFailed e], (None, None)))"
  using assms
proof (elim disjE exE conjE)
  fix c m assume "ep q = PostRaises (Thrown c (Inr m))" "derives_Exception c"
    "print_markup cons (api_failed_line @ m) = None"
  then show ?thesis by (simp add: call_deepseek_def call_deepseek_body_def)
next
  fix r c m assume "ep q = PostReturns r" "json_body r = Inl (Thrown c (Inr m))"
    "derives_Exception c" "print_markup cons (api_failed_line @ m) = None"
  then show ?thesis by (simp add: call_deepseek_def call_deepseek_body_def bind_exc_Inl)
next
  fix r j assume "ep q = PostReturns r" "json_body r = Inr j" "\<not> nonempty_choices j"
  from body_without_choices[of ep q r j, OF this] show ?thesis
    by (auto simp: call_deepseek_def)
qed

text \<open>
  Claim C3, amended. When the request raises an exception deriving from \<open>Exception\<close>, or
  decoding the body does, and the console prints the failure line with its message, or when
  the decoded body has no non-empty \<open>choices\<close> list, \<open>call_deepseek\<close> returns \<open>(None, None)\<close>
  without raising, and \<open>query\<close> returns after the failure panel without evaluating anything.
\<close>

theorem failed_call_is_unrecognized:
  assumes "(\<exists>c m. post w q = PostRaises (Thrown c (Inr m)) \<and> derives_Exception c
              \<and> print_markup (console w) (api_failed_line @ m) = None)
         \<or> (\<exists>r c m. post w q = PostReturns r \<and> json_body r = Inl (Thrown c (Inr m))
              \<and> derives_Exception c \<and> print_markup (console w) (api_failed_line @ m) = None)
         \<or> (\<exists>r j. post w q = PostReturns r \<and> json_body r = Inr j \<and> \<not> nonempty_choices j)"
  shows "\<exists>out self'. call_deepseek (console w) (post w) q = Inr (out, (None, None))
             \<and> query w self q = Inr (out @ [QueryFailedPanel], self')
             \<and> (\<forall>src. Exec src \<notin> set (out @ [QueryFailedPanel]))"
  using failed_call[of "post w" q "console w", OF assms] by (auto simp: query_def)

theorem failed_call_is_unrecognized_witness:
  "query \<lparr>post = (\<lambda>p. PostRaises (Thrown RequestException (Inr (ascii ''timed out'')))),
                 exec = exec_name [], console = plain_console\<rparr>
         fresh (ascii ''q'')
   = Inr ([ApiCallFailed (Raised RequestException (ascii ''timed out'')), QueryFailedPanel], fresh)"
  using failed_call_is_unrecognized[of
      "\<lparr>post = (\<lambda>p. PostRaises (Thrown RequestException (Inr (ascii ''timed out'')))),
        exec = exec_name [], console = plain_console\<rparr>"
      "ascii ''q''" fresh]
  by (auto simp: call_deepseek_def call_deepseek_body_def plain_console_def query_def)

section \<open>The payload\<close>

text \<open>
  Claim C4, as stated, fails: for the bare response text \<open>CODE|\<close> the kind is \<open>code\<close> and
  the payload is the empty string.
\<close>

theorem empty_code_payload_counterexample:
  "call_deepseek plain_console (replies 200 (ascii ''CODE|'')) (ascii ''q'')
     = Inr ([], (Some (ascii ''code''), Some []))"
  by (simp add: call_deepseek_replies eval_strings)

text \<open>
  Claim C4, amended. \<open>call_deepseek\<close> may return an empty payload; \<open>query\<close> tests it (line
  209) and shows the failure panel for it, so that neither the answer panel nor \<open>exec\<close> ever
  receives an empty payload.
\<close>

theorem query_payload_nonempty:
  "(call_deepseek (console w) (post w) q = Inr (out1, (kind, Some [])) \<longrightarrow>
      query w self q = Inr (out1 @ [QueryFailedPanel], self))
   \<and> (query w self q = Inr (out, self') \<longrightarrow>
      AnswerPanel [] \<notin> set out \<and> Exec (exec_source []) \<notin> set out)"
proof (intro conjI impI)
  assume "call_deepseek (console w) (post w) q = Inr (out1, (kind, Some []))"
  then show "query w self q = Inr (out1 @ [QueryFailedPanel], self)"
    by (simp add: query_def)
next
  assume "query w self q = Inr (out, self')"
  from query_shape[OF this] show "AnswerPanel [] \<notin> set out"
    by (auto dest: call_deepseek_no_Answer show_result_no_Answer)
next
  assume "query w self q = Inr (out, self')"
  from query_shape[OF this] show "Exec (exec_source []) \<notin> set out"
    by (auto simp: exec_source_inj dest: call_deepseek_no_Exec show_result_no_Exec)
qed

theorem query_payload_nonempty_witness:
  "query \<lparr>post = replies 200 (ascii ''CODE|''), exec = exec_name [], console = plain_console\<rparr>
         \<lparr>debug_mode = False, last_result = PyNone, last_query = None\<rparr> (ascii ''q'')
   = Inr ([QueryFailedPanel], \<lparr>debug_mode = False, last_result = PyNone, last_query = None\<rparr>)
   \<and> AnswerPanel [] \<notin> set [QueryFailedPanel] \<and> Exec (exec_source []) \<notin> set [QueryFailedPanel]"
  using query_payload_nonempty[of
      "\<lparr>post = replies 200 (ascii ''CODE|''), exec = exec_name [], console = plain_console\<rparr>" "ascii ''q''" "[]"
      "Some (ascii ''code'')" "\<lparr>debug_mode = False, last_result = PyNone, last_query = None\<rparr>"
      "[QueryFailedPanel]" "\<lparr>debug_mode = False, last_result = PyNone, last_query = None\<rparr>"]
  by (simp add: call_deepseek_replies eval_strings)

section \<open>Explanations\<close>




section \<open>Evaluation\<close>

text \<open>
  Claim C1 does not hold of the code. The expression \<open>os\<close> is evaluated to the module \<open>os\<close>:
  line 131 passes \<open>globals()\<close> to \<open>exec\<close>, so the names of the module resolve besides the
  three names of \<open>local_vars\<close>. The prompt asks for one expression that imports nothing
  (lines 62 to 65), and the earlier version of the function announces a safe environment.
\<close>

theorem module_name_is_resolved:
  "execute_code (exec_name []) (ascii ''os'')
     = Inr ([Exec (ascii ''result = os'')], PyModule (ascii ''os''))
   \<and> ascii ''os'' \<notin> set (map fst local_vars)"
  by (simp add: execute_code_def exec_name_def exec_source_def resolve_def module_globals_def
      local_vars_def get_result_def ascii_def)

text \<open>
  Claim C2, as stated, fails twice: \<open>exit()\<close> raises \<open>SystemExit\<close>, which \<open>except Exception\<close>
  does not catch; and an exception that is caught but whose \<open>__str__\<close> raises makes line 134
  raise inside the handler. Both reach the caller of \<open>execute_code\<close>.
\<close>

theorem escaping_exception_counterexample:
  "execute_code (\<lambda>src globs locs. ExecRaises (Thrown SystemExit (Inr (ascii ''None''))))
       (ascii ''exit()'')
     = Inl (Raised SystemExit (ascii ''None''))
   \<and> execute_code
        (\<lambda>src globs locs. ExecRaises (Thrown OtherException
            (Inl (Raised ZeroDivisionError (ascii ''division by zero'')))))
        unprintable_code
     = Inl (Raised ZeroDivisionError (ascii ''division by zero''))"
  by (simp add: execute_code_def)

text \<open>
  Claim C2, amended. When the evaluation raises an exception deriving from \<open>Exception\<close>
  (\<open>NameError\<close> for an undefined name among them) whose \<open>str\<close> returns a message,
  \<open>execute_code\<close> returns the error string: the prefix of line 134 followed by that message,
  hence never empty. \<open>execute_code\<close> raises to its caller exactly when the evaluation raises
  an exception that does not derive from \<open>Exception\<close>, or one whose \<open>str\<close> raises.
\<close>

theorem execute_code_except_Exception:
  "(ex (exec_source code) module_globals local_vars = ExecRaises (Thrown c (Inr m))
      \<and> derives_Exception c \<longrightarrow>
      execute_code ex code = Inr ([Exec (exec_source code)], PyStr (exec_error_prefix @ m))
      \<and> exec_error_prefix @ m \<noteq> [])
   \<and> ((\<exists>e. execute_code ex code = Inl e) \<longleftrightarrow>
      (\<exists>c' t. ex (exec_source code) module_globals local_vars = ExecRaises (Thrown c' t)
          \<and> (\<not> derives_Exception c' \<or> (\<exists>e'. t = Inl e'))))"
proof (intro conjI impI)
  assume "ex (exec_source code) module_globals local_vars = ExecRaises (Thrown c (Inr m))
      \<and> derives_Exception c"
  then show "execute_code ex code = Inr ([Exec (exec_source code)], PyStr (exec_error_prefix @ m))"
    by (simp add: execute_code_def)
next
  show "exec_error_prefix @ m \<noteq> []"
    by (simp add: exec_error_prefix_def)
next
  show "(\<exists>e. execute_code ex code = Inl e) \<longleftrightarrow>
      (\<exists>c' t. ex (exec_source code) module_globals local_vars = ExecRaises (Thrown c' t)
          \<and> (\<not> derives_Exception c' \<or> (\<exists>e'. t = Inl e')))"
  proof (cases "ex (exec_source code) module_globals local_vars")
    case (ExecDone ns)
    then show ?thesis by (simp add: execute_code_def)
  next
    case (ExecRaises th)
    obtain c' t where th: "th = Thrown c' t" by (cases th) auto
    show ?thesis
    proof (cases t)
      case (Inl e')
      with ExecRaises th show ?thesis by (simp add: execute_code_def)
    next
      case (Inr m')
      with ExecRaises th show ?thesis by (simp add: execute_code_def)
    qed
  qed
qed

theorem execute_code_except_Exception_witness:
  "execute_code (exec_name []) (ascii ''nope'')
     = Inr ([Exec (exec_source (ascii ''nope''))],
            PyStr (exec_error_prefix @ ascii ''name '' @ [39] @ ascii ''nope'' @ [39]
                   @ ascii '' is not defined''))"
  using execute_code_except_Exception[of "exec_name []" "ascii ''nope''" NameError
      "ascii ''name '' @ [39] @ ascii ''nope'' @ [39] @ ascii '' is not defined''"]
    exec_name_unbound
  by simp

section \<open>The last result\<close>




text \<open>
  Claim C9 does not hold of the code. After a data query that succeeded, a query whose
  classification fails returns at line 215 without clearing \<open>last_result\<close> (the explanation
  branch, line 225, and the error branch, line 246, both clear it): the instance still holds
  the earlier DataFrame, and \<open>save_result\<close> writes it to a file.
\<close>

theorem stale_result_is_saved:
  "query fetching_world fresh (ascii ''spot prices'')
     = Inr ([Exec (exec_source (ascii ''ak.stock_zh_a_spot_em().tail(1)'')),
             TablePanel example_frame 1, SaveHint],
            \<lparr>debug_mode = False, last_result = PyDataFrame example_frame,
              last_query = Some (ascii ''spot prices'')\<rparr>)
   \<and> query unreachable_world
        \<lparr>debug_mode = False, last_result = PyDataFrame example_frame,
          last_query = Some (ascii ''spot prices'')\<rparr> (ascii ''again'')
     = Inr ([ApiCallFailed (Raised RequestException (ascii ''timed out'')), QueryFailedPanel],
            \<lparr>debug_mode = False, last_result = PyDataFrame example_frame,
              last_query = Some (ascii ''spot prices'')\<rparr>)
   \<and> save_result example_fs
        \<lparr>debug_mode = False, last_result = PyDataFrame example_frame,
          last_query = Some (ascii ''spot prices'')\<rparr> None
     = Inr [WriteCsv data_folder (ascii ''spot prices_20240102_093000.csv'') example_frame,
            SavedTo data_folder (ascii ''spot prices_20240102_093000.csv'')]"
proof (intro conjI)
  have cd: "call_deepseek (console fetching_world) (post fetching_world) (ascii ''spot prices'')
      = Inr ([], (Some (ascii ''code''),
                  Some (ascii ''ak.stock_zh_a_spot_em().tail(1)'')))"
    by (simp add: fetching_world_def call_deepseek_replies eval_strings)
  show "query fetching_world fresh (ascii ''spot prices'')
     = Inr ([Exec (exec_source (ascii ''ak.stock_zh_a_spot_em().tail(1)'')),
             TablePanel example_frame 1, SaveHint],
            \<lparr>debug_mode = False, last_result = PyDataFrame example_frame,
              last_query = Some (ascii ''spot prices'')\<rparr>)"
    unfolding query_def cd
    by (simp add: fetching_world_def fresh_def execute_code_def get_result_def example_frame_def
         plain_console_def)
       (simp add: ascii_def)
next
  show "query unreachable_world
        \<lparr>debug_mode = False, last_result = PyDataFrame example_frame,
          last_query = Some (ascii ''spot prices'')\<rparr> (ascii ''again'')
     = Inr ([ApiCallFailed (Raised RequestException (ascii ''timed out'')), QueryFailedPanel],
            \<lparr>debug_mode = False, last_result = PyDataFrame example_frame,
              last_query = Some (ascii ''spot prices'')\<rparr>)"
    by (simp add: query_def unreachable_world_def call_deepseek_def call_deepseek_body_def
        plain_console_def)
next
  show "save_result example_fs
        \<lparr>debug_mode = False, last_result = PyDataFrame example_frame,
          last_query = Some (ascii ''spot prices'')\<rparr> None
     = Inr [WriteCsv data_folder (ascii ''spot prices_20240102_093000.csv'') example_frame,
            SavedTo data_folder (ascii ''spot prices_20240102_093000.csv'')]"
    by (simp add: save_result_def save_result_body_def default_filename_def ensure_csv_def
        example_fs_def kept_chars_def ascii_def suffix_to_prefix plain_console_def
        example_frame_def)
qed

theorem stale_result_is_saved_witness:
  "(case query unreachable_world
           \<lparr>debug_mode = False, last_result = PyDataFrame example_frame,
             last_query = Some (ascii ''spot prices'')\<rparr> (ascii ''again'') of
      Inl e \<Rightarrow> False
    | Inr (out, self') \<Rightarrow>
        last_result self' = PyDataFrame example_frame
        \<and> save_result example_fs self' None \<noteq> Inr [NoDataToSave])"
  using stale_result_is_saved by simp

end
